theory Spec2Isabelle
  imports Complex_Main "HOL-Library.Sublist"
begin

section \<open>Data model\<close>

text \<open>
  The entities of \<^verbatim>\<open>src/MainApp.tsx\<close> and of the \<^verbatim>\<open>App\<close> component
  (\<^verbatim>\<open>src/unnamed/part_001\<close>). Identity ids are strings, session and message ids are
  JavaScript numbers holding integers, \<^verbatim>\<open>duration\<close> is a JavaScript number holding a whole
  number of minutes, \<^verbatim>\<open>lat\<close>/\<^verbatim>\<open>lng\<close> are numbers on which no arithmetic is done.
\<close>

datatype session_status = Active | Closed

record Session =
  session_id :: int
  status :: session_status
  lat :: real
  lng :: real
  creator_id :: string
  duration :: int
  participants :: "string list"
  creator :: "string option"

record Coords =
  coords_lat :: real
  coords_lng :: real

text \<open>The argument of \<^verbatim>\<open>handleCreateSession\<close>: a session without the fields the handler fills in.\<close>

record SessionData =
  data_status :: session_status
  data_duration :: int

text \<open>The row object handed to \<^verbatim>\<open>.insert\<close> by \<^verbatim>\<open>handleCreateSession\<close>.\<close>

record SessionInsert =
  new_status :: session_status
  new_duration :: int
  new_lat :: real
  new_lng :: real
  new_creator_id :: string
  new_participants :: "string list"

record Profile =
  username :: string
  bio :: string
  privacy :: string

record User =
  user_id :: string
  email :: "string option"
  profile :: Profile

text \<open>A row of the profiles table, as \<^verbatim>\<open>handleOpenProfile\<close> reads it.\<close>

record ProfileRow =
  profile_id :: string
  profile_username :: string
  profile_bio :: string
  profile_privacy :: string

text \<open>A row of the messages table (\<^verbatim>\<open>payload.new\<close>) and a chat message with its sender's name.\<close>

record MessageRow =
  message_id :: int
  event_id :: int
  sender_id :: string
  message_text :: string

record VibeMessage =
  row :: MessageRow
  sender :: string

text \<open>
  What an awaited backend call gives back inside a \<^verbatim>\<open>try\<close> block: the promise rejects (or
  reading the result raises) and control goes to \<^verbatim>\<open>catch\<close>; or the result carries an
  \<^verbatim>\<open>error\<close> with its message; or it carries \<^verbatim>\<open>data\<close>.
\<close>

datatype 'a reply = Thrown | Failed string | Ok 'a

section \<open>Arithmetic on JavaScript numbers\<close>

text \<open>
  A JavaScript number is an IEEE 754 double: it holds every integer of magnitude up to
  \<open>2 ^ 53\<close>, and beyond that only the multiples of a power of two (53 significant bits).
  \<open>ulp a\<close> is the distance between neighbouring numbers at magnitude \<open>a\<close>; \<open>to_number n\<close> is
  the number nearest to the integer \<open>n\<close>, a tie going to the neighbour whose significand is
  even; \<open>number_add\<close> is \<^verbatim>\<open>+\<close> on two numbers that hold integers: the exact sum, rounded.
\<close>

fun ulp :: "nat \<Rightarrow> nat" where
  "ulp a = (if a < 2 ^ 53 then 1 else 2 * ulp (a div 2))"

definition to_number :: "int \<Rightarrow> int" where
  "to_number n =
     (let a = nat \<bar>n\<bar>; q = ulp a; k = a div q; r = a mod q;
          m = (if 2 * r < q \<or> (2 * r = q \<and> even k) then k * q else (k + 1) * q)
      in sgn n * int m)"

definition number_add :: "int \<Rightarrow> int \<Rightarrow> int" where
  "number_add x y = to_number (x + y)"

section \<open>Requests, state setters and effects\<close>

datatype request =
    SelectActiveSessions
  | SelectMessages int
  | SelectProfileById string
  | SelectProfileByUsername string
  | InsertSession SessionInsert
  | InsertMessage string string int
  | UpdateStatusClosed int
  | UpdateDuration int int
  | UpdateParticipants int "string list"

text \<open>
  A handler is a function from the state it closes over, its arguments and the reply of its
  awaited call to the list of things it does, in order: the request it issues, the React
  setters it calls and its other effects. \<^verbatim>\<open>console\<close> output is left out.
\<close>

datatype action =
    Remote request
  | Alert string
  | SetTimeoutLogout nat
  | SetSessions "Session list"
  | SetActiveSession "Session option"
  | SetIsChatVisible bool
  | SetChatMessages "VibeMessage list"
  | AppendChatMessage VibeMessage
  | SetError "string option"
  | SetNewEventCoords "Coords option"
  | SetIsCreateModalOpen bool
  | SetIsCreateMode bool
  | SetViewedUser "User option"
  | SetIsProfileModalOpen bool

text \<open>The \<^verbatim>\<open>useState\<close> cells of \<^verbatim>\<open>MainApp\<close> that the handlers read or write, and its \<^verbatim>\<open>user\<close> prop.\<close>

record MainApp =
  user :: User
  sessions :: "Session list"
  activeSession :: "Session option"
  isChatVisible :: bool
  chatMessages :: "VibeMessage list"
  error :: "string option"
  sessionValid :: bool
  newEventCoords :: "Coords option"
  isCreateModalOpen :: bool
  isCreateMode :: bool
  viewedUser :: "User option"
  isProfileModalOpen :: bool

text \<open>The state of a freshly mounted \<^verbatim>\<open>MainApp\<close>: the initial values of its \<^verbatim>\<open>useState\<close> calls.\<close>

definition mounted :: "User \<Rightarrow> MainApp" where
  "mounted u =
     \<lparr>user = u, sessions = [], activeSession = None, isChatVisible = False,
      chatMessages = [], error = None, sessionValid = True, newEventCoords = None,
      isCreateModalOpen = False, isCreateMode = False, viewedUser = None,
      isProfileModalOpen = False\<rparr>"

fun apply_action :: "MainApp \<Rightarrow> action \<Rightarrow> MainApp" where
  "apply_action st (Remote rq) = st"
| "apply_action st (Alert m) = st"
| "apply_action st (SetTimeoutLogout ms) = st"
| "apply_action st (SetSessions ss) = st\<lparr>sessions := ss\<rparr>"
| "apply_action st (SetActiveSession s) = st\<lparr>activeSession := s\<rparr>"
| "apply_action st (SetIsChatVisible b) = st\<lparr>isChatVisible := b\<rparr>"
| "apply_action st (SetChatMessages ms) = st\<lparr>chatMessages := ms\<rparr>"
| "apply_action st (AppendChatMessage m) = st\<lparr>chatMessages := chatMessages st @ [m]\<rparr>"
| "apply_action st (SetError e) = st\<lparr>error := e\<rparr>"
| "apply_action st (SetNewEventCoords c) = st\<lparr>newEventCoords := c\<rparr>"
| "apply_action st (SetIsCreateModalOpen b) = st\<lparr>isCreateModalOpen := b\<rparr>"
| "apply_action st (SetIsCreateMode b) = st\<lparr>isCreateMode := b\<rparr>"
| "apply_action st (SetViewedUser u) = st\<lparr>viewedUser := u\<rparr>"
| "apply_action st (SetIsProfileModalOpen b) = st\<lparr>isProfileModalOpen := b\<rparr>"

definition run :: "MainApp \<Rightarrow> action list \<Rightarrow> MainApp" where
  "run st acts = foldl apply_action st acts"

text \<open>What a list of actions sends to the backend, whom it alerts, which logouts it schedules.\<close>

fun requests :: "action list \<Rightarrow> request list" where
  "requests [] = []"
| "requests (Remote rq # as) = rq # requests as"
| "requests (a # as) = requests as"

fun alerts :: "action list \<Rightarrow> string list" where
  "alerts [] = []"
| "alerts (Alert m # as) = m # alerts as"
| "alerts (a # as) = alerts as"

fun logouts :: "action list \<Rightarrow> nat list" where
  "logouts [] = []"
| "logouts (SetTimeoutLogout ms # as) = ms # logouts as"
| "logouts (a # as) = logouts as"

fun banners :: "action list \<Rightarrow> string list" where
  "banners [] = []"
| "banners (SetError (Some m) # as) = m # banners as"
| "banners (a # as) = banners as"

fun appends :: "action list \<Rightarrow> VibeMessage list" where
  "appends [] = []"
| "appends (AppendChatMessage m # as) = m # appends as"
| "appends (a # as) = appends as"

section \<open>Failure classification\<close>

text \<open>\<^verbatim>\<open>String.prototype.includes\<close>: the needle occurs as a contiguous run of the text.\<close>

fun string_includes :: "string \<Rightarrow> string \<Rightarrow> bool" where
  "string_includes [] needle = (needle = [])"
| "string_includes (c # cs) needle = (prefix needle (c # cs) \<or> string_includes cs needle)"

text \<open>
  The test every handler of \<^verbatim>\<open>MainApp\<close> repeats on \<^verbatim>\<open>error.message\<close>, and the two calls it
  guards: \<^verbatim>\<open>setError("Session expired. Please log in again.")\<close> and
  \<^verbatim>\<open>setTimeout(() => onLogout(), 2000)\<close>. \<open>otherwise\<close> is the handler's \<^verbatim>\<open>else\<close> branch.
\<close>

definition is_auth_expired :: "string \<Rightarrow> bool" where
  "is_auth_expired message = (string_includes message ''JWT'' \<or> string_includes message ''session'')"

definition session_expired :: "action list" where
  "session_expired =
     [SetError (Some ''Session expired. Please log in again.''), SetTimeoutLogout 2000]"

definition on_error :: "string \<Rightarrow> action list \<Rightarrow> action list" where
  "on_error message otherwise = (if is_auth_expired message then session_expired else otherwise)"

section \<open>The handlers of MainApp\<close>

text \<open>\<^verbatim>\<open>fetchSessions\<close> (lines 47-70).\<close>

definition fetchSessions :: "Session list reply \<Rightarrow> action list" where
  "fetchSessions r =
     Remote SelectActiveSessions #
     (case r of
        Failed m \<Rightarrow> on_error m [SetError (Some ''Failed to load sessions. Please refresh the page.'')]
      | Ok data \<Rightarrow> [SetSessions data, SetError None]
      | Thrown \<Rightarrow> [SetError (Some ''An unexpected error occurred while loading sessions.'')])"

text \<open>
  The effect that loads the sessions (lines 44-72), on mount and on every change event of
  the sessions feed.
\<close>

definition sessionsEffect :: "MainApp \<Rightarrow> Session list reply \<Rightarrow> action list" where
  "sessionsEffect st r = (if \<not> sessionValid st then [] else fetchSessions r)"

text \<open>\<^verbatim>\<open>fetchMessages\<close> (lines 90-110), for the active session \<open>a\<close>.\<close>

definition fetchMessages :: "Session \<Rightarrow> VibeMessage list reply \<Rightarrow> action list" where
  "fetchMessages a r =
     Remote (SelectMessages (session_id a)) #
     (case r of
        Failed m \<Rightarrow> on_error m []
      | Ok data \<Rightarrow> [SetChatMessages data]
      | Thrown \<Rightarrow> [])"

text \<open>The effect that loads the messages of the active session when its chat is shown (lines 85-111).\<close>

definition messagesEffect :: "MainApp \<Rightarrow> VibeMessage list reply \<Rightarrow> action list" where
  "messagesEffect st r =
     (if \<not> sessionValid st then []
      else case activeSession st of
        None \<Rightarrow> []
      | Some a \<Rightarrow> if isChatVisible st then fetchMessages a r else [])"

text \<open>
  The callback of the messages subscription (lines 120-143): it looks the sender's profile
  up and appends the new row with the name found, or with \<^verbatim>\<open>'Unknown'\<close> when the lookup
  returns an error; its \<^verbatim>\<open>catch\<close> only logs.
\<close>

definition messagesSubscription_callback :: "MessageRow \<Rightarrow> Profile reply \<Rightarrow> action list" where
  "messagesSubscription_callback new r =
     Remote (SelectProfileById (sender_id new)) #
     (case r of
        Failed m \<Rightarrow> [AppendChatMessage \<lparr>row = new, sender = ''Unknown''\<rparr>]
      | Ok p \<Rightarrow> [AppendChatMessage \<lparr>row = new, sender = username p\<rparr>]
      | Thrown \<Rightarrow> [])"

text \<open>
  The subscription exists while the effect's condition holds (lines 86-89), filtered to the
  active session's id (line 118): the feed calls the callback for an inserted row of that
  session only.
\<close>

definition messagesSubscription :: "MainApp \<Rightarrow> int option" where
  "messagesSubscription st =
     (if sessionValid st \<and> isChatVisible st
      then map_option session_id (activeSession st) else None)"

definition deliver :: "MainApp \<Rightarrow> MessageRow \<Rightarrow> Profile reply \<Rightarrow> action list" where
  "deliver st new r =
     (if messagesSubscription st = Some (event_id new)
      then messagesSubscription_callback new r else [])"

definition handleMapClickInCreateMode :: "MainApp \<Rightarrow> Coords \<Rightarrow> action list" where
  "handleMapClickInCreateMode st coords =
     (if activeSession st \<noteq> None
      then [Alert ''You are already in a session. Leave or close your current session to create a new one.'',
            SetIsCreateMode False]
      else [SetNewEventCoords (Some coords), SetIsCreateModalOpen True])"

definition handleCreateSession ::
  "MainApp \<Rightarrow> SessionData \<Rightarrow> Session option reply \<Rightarrow> action list" where
  "handleCreateSession st sessionData r =
     (case newEventCoords st of
        None \<Rightarrow> []
      | Some c \<Rightarrow>
          if \<not> sessionValid st then []
          else
            Remote (InsertSession
              \<lparr>new_status = Active, new_duration = data_duration sessionData,
               new_lat = coords_lat c, new_lng = coords_lng c,
               new_creator_id = user_id (user st),
               new_participants = [user_id (user st)]\<rparr>) #
            (case r of
               Failed m \<Rightarrow>
                 on_error m [SetError (Some ''Failed to create session. Please try again.'')]
             | Ok None \<Rightarrow> []
             | Ok (Some newSession) \<Rightarrow>
                 [SetActiveSession (Some newSession), SetIsCreateModalOpen False,
                  SetNewEventCoords None, SetIsCreateMode False, SetError None]
             | Thrown \<Rightarrow> [SetError (Some ''Failed to create session. Please try again.'')]))"

definition handleCloseSession :: "MainApp \<Rightarrow> int \<Rightarrow> unit reply \<Rightarrow> action list" where
  "handleCloseSession st sessionId r =
     (if \<not> sessionValid st then []
      else
        Remote (UpdateStatusClosed sessionId) #
        (case r of
           Failed m \<Rightarrow> on_error m []
         | Ok _ \<Rightarrow>
             if map_option session_id (activeSession st) = Some sessionId
             then [SetActiveSession None, SetIsChatVisible False] else []
         | Thrown \<Rightarrow> []))"

definition handleExtendSession :: "MainApp \<Rightarrow> int \<Rightarrow> unit reply \<Rightarrow> action list" where
  "handleExtendSession st sessionId r =
     (if \<not> sessionValid st then []
      else case find (\<lambda>s. session_id s = sessionId) (sessions st) of
        None \<Rightarrow> []
      | Some session \<Rightarrow>
          Remote (UpdateDuration sessionId (number_add (duration session) 15)) #
          (case r of
             Failed m \<Rightarrow> on_error m []
           | Ok _ \<Rightarrow> []
           | Thrown \<Rightarrow> []))"

definition handleJoinSession :: "MainApp \<Rightarrow> int \<Rightarrow> Session option reply \<Rightarrow> action list" where
  "handleJoinSession st sessionId r =
     (if \<not> sessionValid st then []
      else if activeSession st \<noteq> None
      then [Alert ''You're already in a session. Please leave it before joining another.'']
      else case find (\<lambda>s. session_id s = sessionId) (sessions st) of
        None \<Rightarrow> []
      | Some session \<Rightarrow>
          Remote (UpdateParticipants sessionId (participants session @ [user_id (user st)])) #
          (case r of
             Failed m \<Rightarrow> on_error m []
           | Ok data \<Rightarrow> [SetActiveSession data]
           | Thrown \<Rightarrow> []))"

definition handleLeaveSession :: "MainApp \<Rightarrow> int \<Rightarrow> unit reply \<Rightarrow> action list" where
  "handleLeaveSession st sessionId r =
     (if \<not> sessionValid st then []
      else case find (\<lambda>s. session_id s = sessionId) (sessions st) of
        None \<Rightarrow> []
      | Some session \<Rightarrow>
          Remote (UpdateParticipants sessionId
                    (filter (\<lambda>p. p \<noteq> user_id (user st)) (participants session))) #
          (case r of
             Failed m \<Rightarrow> on_error m []
           | Ok _ \<Rightarrow> [SetActiveSession None, SetIsChatVisible False]
           | Thrown \<Rightarrow> []))"

definition handleSendMessage :: "MainApp \<Rightarrow> string \<Rightarrow> unit reply \<Rightarrow> action list" where
  "handleSendMessage st txt r =
     (case activeSession st of
        None \<Rightarrow> []
      | Some a \<Rightarrow>
          if \<not> sessionValid st then []
          else
            Remote (InsertMessage txt (user_id (user st)) (session_id a)) #
            (case r of
               Failed m \<Rightarrow> on_error m []
             | Ok _ \<Rightarrow> []
             | Thrown \<Rightarrow> []))"

definition handleOpenProfile ::
  "MainApp \<Rightarrow> string \<Rightarrow> ProfileRow option reply \<Rightarrow> action list" where
  "handleOpenProfile st name r =
     (if \<not> sessionValid st then []
      else
        Remote (SelectProfileByUsername name) #
        (case r of
           Failed m \<Rightarrow> on_error m []
         | Ok None \<Rightarrow> []
         | Ok (Some p) \<Rightarrow>
             [SetViewedUser
                (Some \<lparr>user_id = profile_id p, email = None,
                       profile = \<lparr>username = profile_username p, bio = profile_bio p,
                                  privacy = profile_privacy p\<rparr>\<rparr>),
              SetIsProfileModalOpen True]
         | Thrown \<Rightarrow> []))"

section \<open>Failing calls\<close>

text \<open>
  The nine backend calls of \<^verbatim>\<open>MainApp\<close> that test the message of a returned error, and a
  failure of such a call: the awaited promise rejects, or the result carries an error with
  its message. \<open>call_fails\<close> is what the handler does when its call fails so.
\<close>

datatype call =
    FetchSessions
  | FetchMessages
  | CreateSession SessionData
  | CloseSession int
  | ExtendSession int
  | JoinSession int
  | LeaveSession int
  | SendMessage string
  | OpenProfile string

datatype failure = Rejected | Errored string

fun failing :: "failure \<Rightarrow> 'a reply" where
  "failing Rejected = Thrown"
| "failing (Errored m) = Failed m"

fun call_fails :: "MainApp \<Rightarrow> call \<Rightarrow> failure \<Rightarrow> action list" where
  "call_fails st FetchSessions f = sessionsEffect st (failing f)"
| "call_fails st FetchMessages f = messagesEffect st (failing f)"
| "call_fails st (CreateSession sessionData) f = handleCreateSession st sessionData (failing f)"
| "call_fails st (CloseSession i) f = handleCloseSession st i (failing f)"
| "call_fails st (ExtendSession i) f = handleExtendSession st i (failing f)"
| "call_fails st (JoinSession i) f = handleJoinSession st i (failing f)"
| "call_fails st (LeaveSession i) f = handleLeaveSession st i (failing f)"
| "call_fails st (SendMessage txt) f = handleSendMessage st txt (failing f)"
| "call_fails st (OpenProfile name) f = handleOpenProfile st name (failing f)"

section \<open>The backend table of sessions\<close>

text \<open>
  The sessions table as the requests of the handlers act on it: an update with
  \<^verbatim>\<open>.eq('id', sessionId)\<close> rewrites the named column of every row with that id, an insert
  adds a row under the next id, a select or a message insert leaves the table as it is.
  \<open>select_active\<close> is the query of \<^verbatim>\<open>fetchSessions\<close>.
\<close>

definition select_active :: "Session list \<Rightarrow> Session list" where
  "select_active db = filter (\<lambda>s. status s = Active) db"

definition next_id :: "Session list \<Rightarrow> int" where
  "next_id db = fold max (map session_id db) 0 + 1"

fun commit :: "Session list \<Rightarrow> request \<Rightarrow> Session list" where
  "commit db (UpdateStatusClosed i) =
     map (\<lambda>s. if session_id s = i then s\<lparr>status := Closed\<rparr> else s) db"
| "commit db (UpdateDuration i d) =
     map (\<lambda>s. if session_id s = i then s\<lparr>duration := d\<rparr> else s) db"
| "commit db (UpdateParticipants i ps) =
     map (\<lambda>s. if session_id s = i then s\<lparr>participants := ps\<rparr> else s) db"
| "commit db (InsertSession new) =
     db @ [\<lparr>session_id = next_id db, status = new_status new, lat = new_lat new,
            lng = new_lng new, creator_id = new_creator_id new,
            duration = new_duration new, participants = new_participants new,
            creator = None\<rparr>]"
| "commit db rq = db"


text \<open>A client of user \<open>u\<close> that has just mounted and loaded its registry from the table.\<close>

definition client :: "User \<Rightarrow> Session list \<Rightarrow> MainApp" where
  "client u db = run (mounted u) (sessionsEffect (mounted u) (Ok (select_active db)))"


datatype membership_op =
    Join nat "Session option reply"
  | Leave nat "unit reply"
  | Reload nat




text \<open>Rounds of extending session \<open>i\<close>, the registry reloaded before each.\<close>

fun extend_rounds :: "nat \<Rightarrow> User \<Rightarrow> int \<Rightarrow> Session list \<Rightarrow> Session list" where
  "extend_rounds 0 u i db = db"
| "extend_rounds (Suc n) u i db =
     extend_rounds n u i
       (foldl commit db (requests (handleExtendSession (client u db) i (Ok ()))))"

section \<open>The App component: identity, logout, revalidation on focus\<close>

datatype visibility = Visible | Hidden

text \<open>
  The result of \<^verbatim>\<open>supabase.auth.getSession()\<close>: the id of the session's user when there is a
  session, and the error when there is one.
\<close>

record GetSessionResult =
  session_user :: "string option"
  session_error :: "string option"

text \<open>
  An awaited call of the auth client outside any \<^verbatim>\<open>try\<close>: its promise rejects, which ends
  the function that awaits it, or it resolves to a result.
\<close>

datatype 'a settled = Rejects | Resolves 'a

datatype auth_event = SIGNED_IN | SIGNED_OUT | OTHER_EVENT

datatype app_action =
    GetSession
  | SignOut
  | AppAlert string
  | LocalStorageClear
  | SessionStorageClear
  | SetLocationHref string
  | LocationReload
  | SetCurrentUser "User option"

text \<open>
  The state of \<^verbatim>\<open>App\<close> (\<^verbatim>\<open>setCurrentUser\<close> keeps \<^verbatim>\<open>userRef\<close> equal to \<^verbatim>\<open>currentUser\<close>) and the
  two browser stores. Loading the document anew, by \<^verbatim>\<open>location.reload()\<close> or by assigning
  \<^verbatim>\<open>location.href\<close>, starts \<^verbatim>\<open>App\<close> again from its initial state and keeps the stores.
\<close>

record App =
  currentUser :: "User option"
  userRef :: "User option"
  loading :: bool
  localStorage :: "(string \<times> string) list"
  sessionStorage :: "(string \<times> string) list"

fun apply_app_action :: "App \<Rightarrow> app_action \<Rightarrow> App" where
  "apply_app_action st (SetCurrentUser v) = st\<lparr>currentUser := v, userRef := v\<rparr>"
| "apply_app_action st LocalStorageClear = st\<lparr>localStorage := []\<rparr>"
| "apply_app_action st SessionStorageClear = st\<lparr>sessionStorage := []\<rparr>"
| "apply_app_action st (SetLocationHref url) =
     st\<lparr>currentUser := None, userRef := None, loading := True\<rparr>"
| "apply_app_action st LocationReload =
     st\<lparr>currentUser := None, userRef := None, loading := True\<rparr>"
| "apply_app_action st a = st"

definition run_app :: "App \<Rightarrow> app_action list \<Rightarrow> App" where
  "run_app st acts = foldl apply_app_action st acts"

text \<open>
  \<^verbatim>\<open>handleLogout\<close> (lines 207-221); its argument is how \<^verbatim>\<open>signOut\<close> settles: it rejects, or
  it resolves with an error or with none.
\<close>

definition handleLogout :: "string option settled \<Rightarrow> app_action list" where
  "handleLogout signOut =
     SignOut #
     (case signOut of
        Rejects \<Rightarrow> []
      | Resolves signOutError \<Rightarrow>
          [LocalStorageClear, SessionStorageClear] @
          (if signOutError \<noteq> None then [SetLocationHref ''/''] else []))"

text \<open>\<^verbatim>\<open>handleVisibilityChange\<close> (lines 227-246).\<close>

definition handleVisibilityChange ::
  "App \<Rightarrow> visibility \<Rightarrow> GetSessionResult settled \<Rightarrow> string option settled \<Rightarrow>
   app_action list" where
  "handleVisibilityChange st visibilityState getSession signOut =
     (if visibilityState \<noteq> Visible then []
      else case currentUser st of
        None \<Rightarrow> []
      | Some u \<Rightarrow>
          GetSession #
          (case getSession of
             Rejects \<Rightarrow> []
           | Resolves result \<Rightarrow>
               if session_error result \<noteq> None \<or> session_user result = None \<or>
                  session_user result \<noteq> Some (user_id u)
               then AppAlert ''Your session has expired or is invalid. The application will now refresh. Please log in again.'' #
                    handleLogout signOut
               else []))"

text \<open>
  The listener given to \<^verbatim>\<open>onAuthStateChange\<close> (lines 181-195). \<open>sessionUser\<close> is the id of
  \<^verbatim>\<open>session?.user\<close>, \<open>load\<close> what \<^verbatim>\<open>loadUserProfile(session.user)\<close> does.
\<close>

definition authListener ::
  "App \<Rightarrow> auth_event \<Rightarrow> string option \<Rightarrow> app_action list \<Rightarrow> app_action list" where
  "authListener st event sessionUser load =
     (if event = SIGNED_IN \<and> sessionUser \<noteq> None
      then (if sessionUser \<noteq> map_option user_id (userRef st) then load else [])
      else if event = SIGNED_OUT then [SetCurrentUser None]
      else [])"

text \<open>
  The auth client's side of a sign-out (the interface of section 6 of the specification): a
  sign-out that resolves with no error emits \<^verbatim>\<open>SIGNED_OUT\<close> to the listener before it
  resolves; one that resolves with an error, or rejects, emits nothing.
\<close>

definition signOut_events :: "string option settled \<Rightarrow> auth_event list" where
  "signOut_events signOut = (if signOut = Resolves None then [SIGNED_OUT] else [])"

text \<open>
  What happens in a run of \<open>acts\<close>, the listener included: it runs on the events of a
  sign-out while that sign-out is awaited, so what it does comes right after \<open>SignOut\<close> and
  before what the awaiting function does next.
\<close>

fun with_listener :: "App \<Rightarrow> string option settled \<Rightarrow> app_action list \<Rightarrow> app_action list" where
  "with_listener st signOut [] = []"
| "with_listener st signOut (SignOut # acts) =
     SignOut # concat (map (\<lambda>e. authListener st e None []) (signOut_events signOut)) @
     with_listener st signOut acts"
| "with_listener st signOut (a # acts) = a # with_listener st signOut acts"

text \<open>One \<^verbatim>\<open>visibilitychange\<close> event, start to end: the handler and, within it, the listener.\<close>

definition visibilitychange ::
  "App \<Rightarrow> visibility \<Rightarrow> GetSessionResult settled \<Rightarrow> string option settled \<Rightarrow>
   app_action list" where
  "visibilitychange st visibilityState getSession signOut =
     with_listener st signOut (handleVisibilityChange st visibilityState getSession signOut)"

section \<open>The loading guard of App\<close>

text \<open>
  The effect on \<^verbatim>\<open>loading\<close> (lines 274-290): while \<^verbatim>\<open>loading\<close> it arms a timer of 10000 ms whose
  callback alerts, clears both stores and reloads; its cleanup, run when \<^verbatim>\<open>loading\<close>
  changes, clears the timer.
\<close>

definition loadingTimeout :: "bool \<Rightarrow> nat option" where
  "loadingTimeout isLoading = (if isLoading then Some 10000 else None)"

definition loadingTimeout_callback :: "app_action list" where
  "loadingTimeout_callback =
     [AppAlert ''Application is taking a while to load. We'll perform a quick refresh to resolve any potential issues.'',
      LocalStorageClear, SessionStorageClear, LocationReload]"

text \<open>
  One life of the document on a clock of milliseconds: \<open>timer\<close> is the time at which the
  armed timer is due, \<open>fired\<close> what timer callbacks have done, \<open>unloaded\<close> that the document
  was given up for a reload. \<open>Elapse d\<close> lets \<open>d\<close> ms pass; a timer due by then runs at its
  due time. \<open>InitComplete\<close> is \<^verbatim>\<open>setLoading(false)\<close> at the end of initialization (line 178):
  the effect's cleanup runs and the effect runs again with \<^verbatim>\<open>loading\<close> false.
\<close>

record Document =
  doc_loading :: bool
  now :: nat
  timer :: "nat option"
  fired :: "app_action list"
  unloaded :: bool

datatype doc_event = Elapse nat | InitComplete

definition document_start :: Document where
  "document_start =
     \<lparr>doc_loading = True, now = 0, timer = loadingTimeout True, fired = [],
      unloaded = False\<rparr>"

fun doc_step :: "Document \<Rightarrow> doc_event \<Rightarrow> Document" where
  "doc_step d (Elapse ms) =
     (if unloaded d then d
      else case timer d of
        None \<Rightarrow> d\<lparr>now := now d + ms\<rparr>
      | Some due \<Rightarrow>
          if due \<le> now d + ms
          then d\<lparr>now := due, timer := None, fired := fired d @ loadingTimeout_callback,
                 unloaded := LocationReload \<in> set loadingTimeout_callback\<rparr>
          else d\<lparr>now := now d + ms\<rparr>)"
| "doc_step d InitComplete =
     (if unloaded d \<or> \<not> doc_loading d then d
      else d\<lparr>doc_loading := False,
             timer := map_option (\<lambda>delay. now d + delay) (loadingTimeout False)\<rparr>)"

fun elapsed :: "doc_event list \<Rightarrow> nat" where
  "elapsed [] = 0"
| "elapsed (Elapse ms # es) = ms + elapsed es"
| "elapsed (InitComplete # es) = elapsed es"

section \<open>Example data\<close>

definition alice :: User where
  "alice = \<lparr>user_id = ''u1'', email = Some ''alice@example.org'',
            profile = \<lparr>username = ''alice'', bio = ''hello'', privacy = ''public''\<rparr>\<rparr>"


definition picnic :: Session where
  "picnic = \<lparr>session_id = 7, status = Active, lat = 40, lng = -74, creator_id = ''u2'',
             duration = 30, participants = [''u2''], creator = Some ''bob''\<rparr>"

definition study :: Session where
  "study = \<lparr>session_id = 9, status = Active, lat = 41, lng = -73, creator_id = ''u1'',
            duration = 45, participants = [''u1''], creator = Some ''alice''\<rparr>"

definition hello :: MessageRow where
  "hello = \<lparr>message_id = 1, event_id = 9, sender_id = ''u1'', message_text = ''hello''\<rparr>"

definition signed_in :: App where
  "signed_in = \<lparr>currentUser = Some alice, userRef = Some alice, loading = False,
                localStorage = [(''sb-auth-token'', ''t1'')],
                sessionStorage = [(''k'', ''v'')]\<rparr>"

text \<open>A session whose duration is \<open>2 ^ 53\<close> minutes.\<close>

definition marathon :: Session where
  "marathon = picnic\<lparr>duration := 9007199254740992\<rparr>"




text \<open>Alice in the session \<open>study\<close> with its chat open, both sessions in her registry.\<close>

definition chatting :: MainApp where
  "chatting = (client alice [picnic, study])\<lparr>activeSession := Some study, isChatVisible := True\<rparr>"

text \<open>
  Alice, in no session, asks to join \<open>picnic\<close>; while that request is in flight she clicks the
  map, which opens the create form; then the join's reply arrives and its setter runs on
  the state the click left.
\<close>

definition picnic_joined :: Session where
  "picnic_joined = picnic\<lparr>participants := [''u2'', ''u1'']\<rparr>"

definition click_during_join :: MainApp where
  "click_during_join =
     (let s0 = client alice [picnic];
          clicked = handleMapClickInCreateMode s0 \<lparr>coords_lat = 41, coords_lng = -73\<rparr>;
          joined = handleJoinSession s0 7 (Ok (Some picnic_joined))
      in run (run s0 clicked) joined)"

section \<open>Basic facts\<close>

lemma run_Nil [simp]: "run st [] = st"
  by (simp add: run_def)

lemma run_Cons [simp]: "run st (a # as) = run (apply_action st a) as"
  by (simp add: run_def)

lemma run_append [simp]: "run st (as @ bs) = run (run st as) bs"
  by (simp add: run_def)

lemma sessions_client [simp]: "sessions (client u db) = select_active db"
  by (simp add: client_def sessionsEffect_def fetchSessions_def mounted_def)

lemma sessionValid_client [simp]: "sessionValid (client u db)"
  by (simp add: client_def sessionsEffect_def fetchSessions_def mounted_def)

lemma activeSession_client [simp]: "activeSession (client u db) = None"
  by (simp add: client_def sessionsEffect_def fetchSessions_def mounted_def)

lemma user_client [simp]: "user (client u db) = u"
  by (simp add: client_def sessionsEffect_def fetchSessions_def mounted_def)

section \<open>Extending a session\<close>

declare ulp.simps [simp del]

lemma ulp_small: "a < 2 ^ 53 \<Longrightarrow> ulp a = 1"
  by (subst ulp.simps) simp

lemma ulp_edge: "ulp 9007199254740992 = 2"
  by (subst ulp.simps) (simp add: ulp_small)

lemma to_number_exact: "\<bar>n\<bar> \<le> 2 ^ 53 \<Longrightarrow> to_number n = n"
proof (cases "\<bar>n\<bar> < 2 ^ 53")
  case True
  then have "nat \<bar>n\<bar> < 2 ^ 53" by simp
  then show ?thesis
    by (simp add: to_number_def ulp_small Let_def sgn_if)
next
  case False
  assume "\<bar>n\<bar> \<le> 2 ^ 53"
  with False have a: "\<bar>n\<bar> = 2 ^ 53" by simp
  then have "nat \<bar>n\<bar> = 2 ^ 53" by simp
  with a show ?thesis
    by (auto simp: to_number_def ulp_edge Let_def sgn_if)
qed

lemma number_add_exact:
  "- (2 ^ 53) \<le> x + y \<Longrightarrow> x + y \<le> 2 ^ 53 \<Longrightarrow> number_add x y = x + y"
  by (simp add: number_add_def to_number_exact abs_le_iff)

lemma number_add_rounds: "number_add 9007199254740992 15 = 9007199254741008"
proof -
  have "ulp 9007199254741007 = 2"
    by (subst ulp.simps) (simp add: ulp_small)
  then show ?thesis
    by (simp add: number_add_def to_number_def Let_def)
qed

lemma find_filter_map:
  assumes "\<And>x. P (f x) = P x" "\<And>x. Q (f x) = Q x"
  shows "find P (filter Q (map f xs)) = map_option f (find P (filter Q xs))"
  using assms by (induction xs) auto

lemma extend_round:
  "find (\<lambda>s. session_id s = i) (select_active db) = Some s \<Longrightarrow>
   foldl commit db (requests (handleExtendSession (client u db) i (Ok ()))) =
     map (\<lambda>x. if session_id x = i then x\<lparr>duration := number_add (duration s) 15\<rparr> else x) db"
  by (simp add: handleExtendSession_def)

lemma find_after_extend:
  assumes a: "find (\<lambda>s. session_id s = i) (select_active db) = Some s"
  shows "find (\<lambda>s. session_id s = i)
           (select_active (map (\<lambda>x. if session_id x = i then x\<lparr>duration := d\<rparr> else x) db))
         = Some (s\<lparr>duration := d\<rparr>)"
proof -
  let ?f = "\<lambda>x. if session_id x = i then x\<lparr>duration := d\<rparr> else x"
  have "find (\<lambda>s. session_id s = i) (filter (\<lambda>s. status s = Active) (map ?f db))
      = map_option ?f (find (\<lambda>s. session_id s = i) (filter (\<lambda>s. status s = Active) db))"
    by (rule find_filter_map) auto
  moreover from a have "session_id s = i"
    by (auto simp: find_Some_iff)
  ultimately show ?thesis
    using a by (simp add: select_active_def)
qed

lemma extend_rounds_duration:
  "find (\<lambda>s. session_id s = i) (select_active db) = Some s \<Longrightarrow>
   - (2 ^ 53) \<le> duration s + 15 \<Longrightarrow> duration s + 15 * int n \<le> 2 ^ 53 \<Longrightarrow>
   find (\<lambda>s. session_id s = i) (select_active (extend_rounds n u i db)) =
     Some (s\<lparr>duration := duration s + 15 * int n\<rparr>)"
proof (induction n arbitrary: db s)
  case 0
  then show ?case by simp
next
  case (Suc n)
  from Suc.prems have e: "number_add (duration s) 15 = duration s + 15"
    by (intro number_add_exact) simp_all
  let ?db = "map (\<lambda>x. if session_id x = i then x\<lparr>duration := duration s + 15\<rparr> else x) db"
  have f: "find (\<lambda>s. session_id s = i) (select_active ?db) = Some (s\<lparr>duration := duration s + 15\<rparr>)"
    using Suc.prems(1) by (rule find_after_extend)
  have "find (\<lambda>s. session_id s = i) (select_active (extend_rounds n u i ?db)) =
     Some ((s\<lparr>duration := duration s + 15\<rparr>)
       \<lparr>duration := duration (s\<lparr>duration := duration s + 15\<rparr>) + 15 * int n\<rparr>)"
    using Suc.prems by (intro Suc.IH [OF f]) simp_all
  moreover have "extend_rounds (Suc n) u i db = extend_rounds n u i ?db"
    using Suc.prems(1) by (simp add: extend_round e cong: if_cong)
  ultimately show ?case
    by (simp add: algebra_simps)
qed

text \<open>
  Claim C8, as stated, fails in "plus exactly 15": the sum is taken on JavaScript numbers.
  With a cached duration of \<open>2 ^ 53\<close> the request carries 9007199254741008, which is the
  cached duration plus 16.
\<close>

theorem extend_at_two_to_53_counterexample:
  "duration marathon = 9007199254740992 \<and>
   find (\<lambda>s. session_id s = 7) (sessions (client alice [marathon])) = Some marathon \<and>
   requests (handleExtendSession (client alice [marathon]) 7 (Ok ())) =
     [UpdateDuration 7 9007199254741008] \<and>
   duration marathon + 15 = 9007199254741007"
  by (simp add: handleExtendSession_def select_active_def marathon_def picnic_def
      number_add_rounds)

text \<open>
  Claim C8, amended. While the session is valid, \<^verbatim>\<open>handleExtendSession\<close> looks the session up in
  the locally cached list: when it is there, the one request it sends sets the duration to
  the cached duration plus 15 as JavaScript adds numbers, which is exactly the cached
  duration plus 15 whenever that sum lies between \<open>- 2 ^ 53\<close> and \<open>2 ^ 53\<close>, and the nearest
  number otherwise; when it is not there, it does nothing at all. Nothing caps the sum: \<open>n\<close>
  rounds of extending, the cache reloaded before each, take a duration \<open>d\<close> to \<open>d + 15 n\<close>
  for every \<open>n\<close> with \<open>d + 15 n\<close> up to \<open>2 ^ 53\<close>.
\<close>

theorem extend_adds_fifteen_as_number:
  "sessionValid st \<Longrightarrow>
   (case find (\<lambda>s. session_id s = sessionId) (sessions st) of
      Some session \<Rightarrow>
        requests (handleExtendSession st sessionId r) =
          [UpdateDuration sessionId (number_add (duration session) 15)] \<and>
        (- (2 ^ 53) \<le> duration session + 15 \<and> duration session + 15 \<le> 2 ^ 53 \<longrightarrow>
           number_add (duration session) 15 = duration session + 15)
    | None \<Rightarrow> handleExtendSession st sessionId r = []) \<and>
   (find (\<lambda>s. session_id s = sessionId) (select_active db) = Some s \<and>
    - (2 ^ 53) \<le> duration s + 15 \<and> duration s + 15 * int n \<le> 2 ^ 53 \<longrightarrow>
      map_option duration
        (find (\<lambda>s. session_id s = sessionId)
           (select_active (extend_rounds n (user st) sessionId db))) =
      Some (duration s + 15 * int n))"
  apply (rule conjI)
   apply (cases r; auto simp: handleExtendSession_def on_error_def session_expired_def
      number_add_exact split: option.splits)
  apply (simp add: extend_rounds_duration)
  done

theorem extend_adds_fifteen_as_number_witness:
  "sessionValid (client alice [picnic]) \<and>
   requests (handleExtendSession (client alice [picnic]) 7 (Ok ())) = [UpdateDuration 7 45] \<and>
   handleExtendSession (client alice [picnic]) 8 (Ok ()) = [] \<and>
   map_option duration
     (find (\<lambda>s. session_id s = 7) (select_active (extend_rounds 100 alice 7 [picnic])))
     = Some 1530"
proof -
  have f: "find (\<lambda>s. session_id s = 7) (select_active [picnic]) = Some picnic"
    by (simp add: select_active_def picnic_def)
  have g: "find (\<lambda>s. session_id s = 8) (sessions (client alice [picnic])) = None"
    by (simp add: select_active_def picnic_def)
  have d: "duration picnic = 30"
    by (simp add: picnic_def)
  have v: "sessionValid (client alice [picnic])"
    by simp
  show ?thesis
    using extend_adds_fifteen_as_number [OF v, of 7 "Ok ()" "[picnic]" picnic 100]
      extend_adds_fifteen_as_number [OF v, of 8 "Ok ()" "[picnic]" picnic 0] f g d v
    by simp
qed

section \<open>Leaving and closing\<close>

text \<open>
  Claim C10. A leave whose write succeeds (the session is valid and the id is in the cached
  list) clears the active-session reference and hides the chat whatever the active session
  is, also when its id is not the \<open>sessionId\<close> left. A close whose write succeeds does so
  only when the active session's id is the \<open>sessionId\<close> closed, and otherwise leaves the
  state as it was.
\<close>

theorem leave_clears_unconditionally:
  "sessionValid st \<Longrightarrow> find (\<lambda>s. session_id s = sessionId) (sessions st) = Some session \<Longrightarrow>
   run st (handleLeaveSession st sessionId (Ok ())) =
     st\<lparr>activeSession := None, isChatVisible := False\<rparr> \<and>
   run st (handleCloseSession st sessionId (Ok ())) =
     (if map_option session_id (activeSession st) = Some sessionId
      then st\<lparr>activeSession := None, isChatVisible := False\<rparr> else st)"
  by (cases "activeSession st") (simp_all add: handleLeaveSession_def handleCloseSession_def)

theorem leave_clears_unconditionally_witness:
  "sessionValid chatting \<and>
   find (\<lambda>s. session_id s = 7) (sessions chatting) = Some picnic \<and>
   map_option session_id (activeSession chatting) = Some 9 \<and>
   run chatting (handleLeaveSession chatting 7 (Ok ())) =
     chatting\<lparr>activeSession := None, isChatVisible := False\<rparr> \<and>
   run chatting (handleCloseSession chatting 7 (Ok ())) = chatting"
proof -
  have v: "sessionValid chatting"
    by (simp add: chatting_def)
  have f: "find (\<lambda>s. session_id s = 7) (sessions chatting) = Some picnic"
    by (simp add: chatting_def select_active_def picnic_def)
  have a: "map_option session_id (activeSession chatting) = Some 9"
    by (simp add: chatting_def study_def)
  show ?thesis
    using leave_clears_unconditionally [OF v f] v f a by simp
qed

text \<open>
  Claim C5, as stated, fails in its last part: a close whose write fails with a message
  containing \<^verbatim>\<open>JWT\<close> changes local state, since it sets the error banner (and schedules the
  logout).
\<close>

theorem close_failure_sets_banner_counterexample:
  "sessionValid chatting \<and> error chatting = None \<and>
   error (run chatting (handleCloseSession chatting 9 (Failed ''JWT expired''))) =
     Some ''Session expired. Please log in again.''"
  by (simp add: chatting_def handleCloseSession_def on_error_def is_auth_expired_def
      session_expired_def client_def sessionsEffect_def fetchSessions_def mounted_def)

text \<open>
  Claim C5, amended. While the session is valid, \<^verbatim>\<open>handleCloseSession\<close> sends one request,
  the update of the status of \<open>sessionId\<close> to closed. When the write succeeds, the
  active-session reference is cleared and the chat hidden if and only if the active
  session's id is \<open>sessionId\<close>; otherwise the state is unchanged. When the write fails, the
  active-session reference, the chat's visibility and every other cell but the error banner
  are unchanged: a failure whose message contains \<^verbatim>\<open>JWT\<close> or \<^verbatim>\<open>session\<close> sets the banner and
  schedules the logout after 2000 ms, any other failure changes nothing.
\<close>

theorem close_frame:
  "sessionValid st \<Longrightarrow>
   requests (handleCloseSession st sessionId r) = [UpdateStatusClosed sessionId] \<and>
   run st (handleCloseSession st sessionId r) =
     (case r of
        Ok u \<Rightarrow>
          if map_option session_id (activeSession st) = Some sessionId
          then st\<lparr>activeSession := None, isChatVisible := False\<rparr> else st
      | Failed m \<Rightarrow>
          if is_auth_expired m then st\<lparr>error := Some ''Session expired. Please log in again.''\<rparr>
          else st
      | Thrown \<Rightarrow> st) \<and>
   logouts (handleCloseSession st sessionId r) =
     (case r of Failed m \<Rightarrow> if is_auth_expired m then [2000] else [] | _ \<Rightarrow> [])"
  by (cases r; cases "activeSession st")
    (simp_all add: handleCloseSession_def on_error_def session_expired_def)

theorem close_frame_witness:
  "sessionValid chatting \<and>
   requests (handleCloseSession chatting 9 (Ok ())) = [UpdateStatusClosed 9] \<and>
   run chatting (handleCloseSession chatting 9 (Ok ())) =
     chatting\<lparr>activeSession := None, isChatVisible := False\<rparr> \<and>
   run chatting (handleCloseSession chatting 7 (Ok ())) = chatting \<and>
   run chatting (handleCloseSession chatting 9 (Failed ''network down'')) = chatting \<and>
   run chatting (handleCloseSession chatting 9 Thrown) = chatting"
proof -
  have v: "sessionValid chatting"
    by (simp add: chatting_def)
  have a: "map_option session_id (activeSession chatting) = Some 9"
    by (simp add: chatting_def study_def)
  have n: "\<not> is_auth_expired ''network down''"
    by (simp add: is_auth_expired_def)
  show ?thesis
    using close_frame [OF v, of 9 "Ok ()"] close_frame [OF v, of 7 "Ok ()"]
      close_frame [OF v, of 9 "Failed ''network down''"] close_frame [OF v, of 9 Thrown] v a n
    by simp
qed

section \<open>The one-session rule\<close>

text \<open>
  Claim C2, as stated, fails for the create operation: \<^verbatim>\<open>handleCreateSession\<close> does not read
  the active-session reference. In the state \<open>click_during_join\<close> Alice holds a reference to
  the session she joined and the create form is open; submitting it alerts nobody, sends the
  insert, and on success replaces her reference.
\<close>

theorem create_submit_unguarded_counterexample:
  "activeSession click_during_join = Some picnic_joined \<and>
   sessionValid click_during_join \<and>
   handleCreateSession click_during_join \<lparr>data_status = Active, data_duration = 45\<rparr> (Ok (Some study)) =
     [Remote (InsertSession \<lparr>new_status = Active, new_duration = 45, new_lat = 41, new_lng = -73,
        new_creator_id = ''u1'', new_participants = [''u1'']\<rparr>),
      SetActiveSession (Some study), SetIsCreateModalOpen False, SetNewEventCoords None,
      SetIsCreateMode False, SetError None] \<and>
   activeSession (run click_during_join (handleCreateSession click_during_join
      \<lparr>data_status = Active, data_duration = 45\<rparr> (Ok (Some study)))) = Some study"
  by (simp add: click_during_join_def handleCreateSession_def handleMapClickInCreateMode_def
      handleJoinSession_def select_active_def picnic_def alice_def Let_def)

text \<open>
  Claim C2, amended. The rule is checked where the create form is opened and where a join
  starts. For an actor who holds an active-session reference, the map click that would open
  the create form alerts the user, sends nothing, opens no form and leaves the reference
  as it is (it only leaves create mode), and, while the session is valid, the join alerts
  the user, sends nothing and changes no state. For an actor who holds none, the map click
  opens the form, and the join of a session found in the cache alerts nobody and sends its
  update. The submission of the form itself, \<^verbatim>\<open>handleCreateSession\<close>, does not depend on the
  reference.
\<close>

theorem already_in_session_guards:
  "(activeSession st \<noteq> None \<longrightarrow>
      handleMapClickInCreateMode st coords =
        [Alert ''You are already in a session. Leave or close your current session to create a new one.'',
         SetIsCreateMode False] \<and>
      run st (handleMapClickInCreateMode st coords) = st\<lparr>isCreateMode := False\<rparr> \<and>
      (sessionValid st \<longrightarrow>
         handleJoinSession st sessionId r =
           [Alert ''You're already in a session. Please leave it before joining another.''] \<and>
         run st (handleJoinSession st sessionId r) = st)) \<and>
   (activeSession st = None \<longrightarrow>
      handleMapClickInCreateMode st coords =
        [SetNewEventCoords (Some coords), SetIsCreateModalOpen True] \<and>
      (sessionValid st \<and> find (\<lambda>s. session_id s = sessionId) (sessions st) = Some session \<longrightarrow>
         alerts (handleJoinSession st sessionId r) = [] \<and>
         requests (handleJoinSession st sessionId r) =
           [UpdateParticipants sessionId (participants session @ [user_id (user st)])])) \<and>
   handleCreateSession (st\<lparr>activeSession := a\<rparr>) sessionData r' = handleCreateSession st sessionData r'"
proof (intro conjI impI)
  show "handleCreateSession (st\<lparr>activeSession := a\<rparr>) sessionData r' =
        handleCreateSession st sessionData r'"
    by (simp add: handleCreateSession_def split: option.splits)
next
  assume "sessionValid st \<and> find (\<lambda>s. session_id s = sessionId) (sessions st) = Some session"
    and "activeSession st = None"
  then show "alerts (handleJoinSession st sessionId r) = []"
    and "requests (handleJoinSession st sessionId r) =
           [UpdateParticipants sessionId (participants session @ [user_id (user st)])]"
    by (cases r; simp add: handleJoinSession_def on_error_def session_expired_def)+
qed (simp_all add: handleMapClickInCreateMode_def handleJoinSession_def)

theorem already_in_session_guards_witness:
  "activeSession chatting \<noteq> None \<and> sessionValid chatting \<and>
   alerts (handleMapClickInCreateMode chatting \<lparr>coords_lat = 41, coords_lng = -73\<rparr>) =
     [''You are already in a session. Leave or close your current session to create a new one.''] \<and>
   requests (handleMapClickInCreateMode chatting \<lparr>coords_lat = 41, coords_lng = -73\<rparr>) = [] \<and>
   handleJoinSession chatting 7 (Ok (Some picnic_joined)) =
     [Alert ''You're already in a session. Please leave it before joining another.''] \<and>
   run chatting (handleJoinSession chatting 7 (Ok (Some picnic_joined))) = chatting \<and>
   activeSession (client alice [picnic]) = None \<and>
   handleMapClickInCreateMode (client alice [picnic]) \<lparr>coords_lat = 41, coords_lng = -73\<rparr> =
     [SetNewEventCoords (Some \<lparr>coords_lat = 41, coords_lng = -73\<rparr>), SetIsCreateModalOpen True] \<and>
   requests (handleJoinSession (client alice [picnic]) 7 (Ok (Some picnic_joined))) =
     [UpdateParticipants 7 [''u2'', ''u1'']]"
proof -
  have a: "activeSession chatting \<noteq> None" "sessionValid chatting"
    by (simp_all add: chatting_def)
  have f: "find (\<lambda>s. session_id s = 7) (sessions (client alice [picnic])) = Some picnic"
    by (simp add: select_active_def picnic_def)
  have p: "participants picnic @ [user_id alice] = [''u2'', ''u1'']"
    by (simp add: picnic_def alice_def)
  show ?thesis
    using already_in_session_guards
        [of chatting "\<lparr>coords_lat = 41, coords_lng = -73\<rparr>" 7 "Ok (Some picnic_joined)"]
      already_in_session_guards
        [of "client alice [picnic]" "\<lparr>coords_lat = 41, coords_lng = -73\<rparr>" 7
            "Ok (Some picnic_joined)" picnic]
      a f p
    by simp
qed

section \<open>Membership\<close>

lemma sessions_after_join [simp]:
  "sessions (run st (handleJoinSession st sid r)) = sessions st"
  by (cases r)
    (auto simp: handleJoinSession_def on_error_def session_expired_def split: option.splits)

lemma sessions_after_leave [simp]:
  "sessions (run st (handleLeaveSession st sid r)) = sessions st"
  by (cases r)
    (auto simp: handleLeaveSession_def on_error_def session_expired_def split: option.splits)





lemma write_keeps_distinct:
  "\<forall>s \<in> set db. distinct (participants s) \<Longrightarrow> distinct ps \<Longrightarrow>
   \<forall>s \<in> set (commit db (UpdateParticipants sid ps)). distinct (participants s)"
  by auto





lemma picnic_cached [simp]:
  "find (\<lambda>s. session_id s = 7) (select_active [picnic]) = Some picnic"
  by (simp add: select_active_def picnic_def)




section \<open>Failures of backend calls\<close>

lemma issued_call:
  "requests (call_fails st c f) \<noteq> [] \<Longrightarrow>
   \<exists>rq rest. call_fails st c f = Remote rq #
     (case f of
        Errored m \<Rightarrow> on_error m rest
      | Rejected \<Rightarrow> rest) \<and>
     (rest = [] \<or> (\<exists>b. rest = [SetError (Some b)]))"
  by (cases c; cases f)
    (auto simp: sessionsEffect_def messagesEffect_def fetchSessions_def fetchMessages_def
      handleCreateSession_def handleCloseSession_def
      handleExtendSession_def handleJoinSession_def handleLeaveSession_def handleSendMessage_def
      handleOpenProfile_def split: option.splits if_splits)

text \<open>
  Claim C4, as stated, fails: not every failing backend call is classified. The profile
  lookup made for a live insert event absorbs its error whatever the message says: with
  the message \<^verbatim>\<open>JWT expired\<close> it sets no banner and schedules no logout, and appends the
  message under the name \<^verbatim>\<open>Unknown\<close>.
\<close>

theorem lookup_failure_unclassified_counterexample:
  "is_auth_expired ''JWT expired'' \<and>
   messagesSubscription chatting = Some (event_id hello) \<and>
   deliver chatting hello (Failed ''JWT expired'') =
     [Remote (SelectProfileById ''u1''), AppendChatMessage \<lparr>row = hello, sender = ''Unknown''\<rparr>]"
  by (simp add: is_auth_expired_def deliver_def messagesSubscription_def chatting_def
      messagesSubscription_callback_def hello_def study_def)

text \<open>
  Claim C4, amended. For each of the nine calls of \<^verbatim>\<open>MainApp\<close> that are classified (loading
  the sessions, loading the messages, create, close, extend, join, leave, send, opening a
  profile), whenever the call is issued and fails: exactly one request was sent (no
  retry); if the call returned an error whose message contains \<^verbatim>\<open>JWT\<close> or \<^verbatim>\<open>session\<close>, the
  handler sets the banner \<^verbatim>\<open>Session expired. Please log in again.\<close> and then schedules the
  logout after exactly 2000 ms, and does nothing else; for every other failure (another
  message, or a rejected promise) it schedules no logout and sets at most one banner. In
  all cases no cell of the state other than the banner changes.
\<close>

theorem failure_classification:
  "requests (call_fails st c f) \<noteq> [] \<Longrightarrow>
   length (requests (call_fails st c f)) = 1 \<and>
   (case f of
      Errored m \<Rightarrow>
        if is_auth_expired m
        then tl (call_fails st c f) =
               [SetError (Some ''Session expired. Please log in again.''), SetTimeoutLogout 2000]
        else logouts (call_fails st c f) = [] \<and> length (banners (call_fails st c f)) \<le> 1
    | Rejected \<Rightarrow> logouts (call_fails st c f) = [] \<and> length (banners (call_fails st c f)) \<le> 1) \<and>
   (run st (call_fails st c f))\<lparr>error := error st\<rparr> = st"
proof -
  assume "requests (call_fails st c f) \<noteq> []"
  from issued_call [OF this] obtain rq rest where
    e: "call_fails st c f = Remote rq # (case f of Errored m \<Rightarrow> on_error m rest | Rejected \<Rightarrow> rest)"
    and r: "rest = [] \<or> (\<exists>b. rest = [SetError (Some b)])"
    by blast
  from r show ?thesis
    unfolding e by (cases f) (auto simp: on_error_def session_expired_def)
qed

theorem failure_classification_witness:
  "call_fails (client alice [picnic]) (JoinSession 7) (Errored ''JWT expired'') =
     [Remote (UpdateParticipants 7 [''u2'', ''u1'']),
      SetError (Some ''Session expired. Please log in again.''), SetTimeoutLogout 2000] \<and>
   call_fails (client alice [picnic]) FetchSessions (Errored ''network down'') =
     [Remote SelectActiveSessions,
      SetError (Some ''Failed to load sessions. Please refresh the page.'')] \<and>
   run (client alice [picnic]) (call_fails (client alice [picnic]) (JoinSession 7) Rejected) =
     client alice [picnic]"
proof -
  have a: "requests (call_fails (client alice [picnic]) (JoinSession 7) (Errored ''JWT expired'')) \<noteq> []"
    "requests (call_fails (client alice [picnic]) FetchSessions (Errored ''network down'')) \<noteq> []"
    "requests (call_fails (client alice [picnic]) (JoinSession 7) Rejected) \<noteq> []"
    by (simp_all add: handleJoinSession_def sessionsEffect_def fetchSessions_def
        select_active_def picnic_def)
  have j: "call_fails (client alice [picnic]) (JoinSession 7) (Errored ''JWT expired'') =
     [Remote (UpdateParticipants 7 [''u2'', ''u1'']),
      SetError (Some ''Session expired. Please log in again.''), SetTimeoutLogout 2000]"
    by (simp add: handleJoinSession_def select_active_def picnic_def alice_def on_error_def
        is_auth_expired_def session_expired_def)
  have s: "call_fails (client alice [picnic]) FetchSessions (Errored ''network down'') =
     [Remote SelectActiveSessions,
      SetError (Some ''Failed to load sessions. Please refresh the page.'')]"
    by (simp add: sessionsEffect_def fetchSessions_def on_error_def is_auth_expired_def)
  have r: "run (client alice [picnic]) (call_fails (client alice [picnic]) (JoinSession 7) Rejected) =
     client alice [picnic]"
    using failure_classification [OF a(3)]
    by (simp add: handleJoinSession_def select_active_def picnic_def)
  show ?thesis
    using failure_classification [OF a(1)] failure_classification [OF a(2)] j s r by simp
qed

section \<open>Chat messages\<close>

text \<open>
  Claim C7, as stated, fails for a lookup that fails by raising: the callback's \<^verbatim>\<open>catch\<close>
  only logs, so the inserted message is not appended.
\<close>

theorem lookup_thrown_drops_message_counterexample:
  "messagesSubscription chatting = Some (event_id hello) \<and>
   deliver chatting hello Thrown = [Remote (SelectProfileById ''u1'')] \<and>
   chatMessages (run chatting (deliver chatting hello Thrown)) = chatMessages chatting"
  by (simp add: deliver_def messagesSubscription_def chatting_def
      messagesSubscription_callback_def hello_def study_def)

text \<open>
  Claim C7, amended. On every live insert event for the active session's messages, if the
  sender profile lookup returns an error, whatever its message, the inserted message is
  appended to the end of the local list under the name \<^verbatim>\<open>Unknown\<close>; if the lookup succeeds
  it is appended under the name found; only when handling the event raises is the message
  not appended, and the state is then unchanged. In no case is the user alerted, a banner
  set or a logout scheduled.
\<close>

theorem failed_lookup_appends_unknown:
  "messagesSubscription st = Some (event_id new) \<Longrightarrow>
   run st (deliver st new l) =
     (case l of
        Failed m \<Rightarrow> st\<lparr>chatMessages := chatMessages st @ [\<lparr>row = new, sender = ''Unknown''\<rparr>]\<rparr>
      | Ok p \<Rightarrow> st\<lparr>chatMessages := chatMessages st @ [\<lparr>row = new, sender = username p\<rparr>]\<rparr>
      | Thrown \<Rightarrow> st) \<and>
   banners (deliver st new l) = [] \<and> alerts (deliver st new l) = [] \<and>
   logouts (deliver st new l) = []"
  by (cases l) (simp_all add: deliver_def messagesSubscription_callback_def)

theorem failed_lookup_appends_unknown_witness:
  "messagesSubscription chatting = Some (event_id hello) \<and>
   chatMessages (run chatting (deliver chatting hello (Failed ''JWT expired''))) =
     chatMessages chatting @ [\<lparr>row = hello, sender = ''Unknown''\<rparr>] \<and>
   run chatting (deliver chatting hello Thrown) = chatting"
proof -
  have s: "messagesSubscription chatting = Some (event_id hello)"
    by (simp add: messagesSubscription_def chatting_def hello_def study_def)
  show ?thesis
    using failed_lookup_appends_unknown [OF s, of "Failed ''JWT expired''"]
      failed_lookup_appends_unknown [OF s, of Thrown] s
    by simp
qed

text \<open>
  Claim C6, as stated, fails in its count: Alice sends a message, the feed delivers the
  inserted row to her client, the sender lookup raises, and her client appends nothing.
\<close>

theorem sent_message_thrown_lookup_counterexample:
  "requests (handleSendMessage chatting ''hello'' (Ok ())) = [InsertMessage ''hello'' ''u1'' 9] \<and>
   messagesSubscription chatting = Some (event_id hello) \<and>
   appends (handleSendMessage chatting ''hello'' (Ok ()) @ deliver chatting hello Thrown) = []"
  by (simp add: handleSendMessage_def deliver_def messagesSubscription_def chatting_def
      messagesSubscription_callback_def hello_def study_def alice_def)

text \<open>
  Claim C6, amended. \<^verbatim>\<open>handleSendMessage\<close> never appends to the local message list and never
  changes it; with an active session and a valid session its one request is the insert of
  the message tied to the active session. When the feed delivers the inserted row to the
  sender's subscribed client, sending and delivery together append the message at most
  once, through the feed's callback: exactly once when the sender lookup returns (a
  profile or an error), not at all when handling the event raises.
\<close>

theorem send_appends_only_through_feed:
  "appends (handleSendMessage st txt r) = [] \<and>
   chatMessages (run st (handleSendMessage st txt r)) = chatMessages st \<and>
   (activeSession st = Some a \<and> sessionValid st \<longrightarrow>
      requests (handleSendMessage st txt r) =
        [InsertMessage txt (user_id (user st)) (session_id a)]) \<and>
   (messagesSubscription st = Some (event_id new) \<longrightarrow>
      appends (handleSendMessage st txt r @ deliver st new l) =
        (case l of
           Thrown \<Rightarrow> []
         | Failed m \<Rightarrow> [\<lparr>row = new, sender = ''Unknown''\<rparr>]
         | Ok p \<Rightarrow> [\<lparr>row = new, sender = username p\<rparr>]))"
proof -
  have a: "appends (handleSendMessage st txt r) = []"
    by (cases r; cases "activeSession st")
      (simp_all add: handleSendMessage_def on_error_def session_expired_def)
  have c: "chatMessages (run st (handleSendMessage st txt r)) = chatMessages st"
    by (cases r; cases "activeSession st")
      (simp_all add: handleSendMessage_def on_error_def session_expired_def)
  have q: "activeSession st = Some a \<and> sessionValid st \<longrightarrow>
      requests (handleSendMessage st txt r) =
        [InsertMessage txt (user_id (user st)) (session_id a)]"
    by (cases r) (simp_all add: handleSendMessage_def on_error_def session_expired_def)
  have p: "appends (xs @ ys) = appends xs @ appends ys" for xs ys
    by (induction xs rule: appends.induct) simp_all
  have d: "messagesSubscription st = Some (event_id new) \<longrightarrow>
      appends (deliver st new l) =
        (case l of
           Thrown \<Rightarrow> []
         | Failed m \<Rightarrow> [\<lparr>row = new, sender = ''Unknown''\<rparr>]
         | Ok p \<Rightarrow> [\<lparr>row = new, sender = username p\<rparr>])"
    by (cases l) (simp_all add: deliver_def messagesSubscription_callback_def)
  from a c q d show ?thesis
    by (simp add: p)
qed

theorem send_appends_only_through_feed_witness:
  "activeSession chatting = Some study \<and> sessionValid chatting \<and>
   messagesSubscription chatting = Some (event_id hello) \<and>
   requests (handleSendMessage chatting ''hello'' (Ok ())) = [InsertMessage ''hello'' ''u1'' 9] \<and>
   appends (handleSendMessage chatting ''hello'' (Ok ()) @
            deliver chatting hello (Ok (profile alice))) =
     [\<lparr>row = hello, sender = ''alice''\<rparr>]"
proof -
  have s: "activeSession chatting = Some study" "sessionValid chatting"
    "messagesSubscription chatting = Some (event_id hello)"
    by (simp_all add: messagesSubscription_def chatting_def hello_def study_def)
  have u: "user_id (user chatting) = ''u1''" "session_id study = 9"
    "username (profile alice) = ''alice''"
    by (simp_all add: chatting_def alice_def study_def)
  show ?thesis
    using send_appends_only_through_feed
        [of chatting "''hello''" "Ok ()" study hello "Ok (profile alice)"] s u
    by simp
qed

section \<open>Revalidation on focus\<close>

lemma run_app_Nil [simp]: "run_app st [] = st"
  by (simp add: run_app_def)

lemma run_app_Cons [simp]: "run_app st (a # as) = run_app (apply_app_action st a) as"
  by (simp add: run_app_def)

text \<open>
  Claim C3, as stated, fails when an awaited call of the auth client rejects, since neither
  await stands in a \<^verbatim>\<open>try\<close>: a query that fails by rejecting ends the handler with no alert
  and no logout; and after a query that returned an error, a sign-out that rejects ends
  \<^verbatim>\<open>handleLogout\<close> with both stores and the identity as they were.
\<close>

theorem rejecting_calls_skip_logout_counterexample:
  "currentUser signed_in = Some alice \<and>
   visibilitychange signed_in Visible Rejects (Resolves None) = [GetSession] \<and>
   visibilitychange signed_in Visible
     (Resolves \<lparr>session_user = None, session_error = Some ''network down''\<rparr>) Rejects =
     [GetSession,
      AppAlert ''Your session has expired or is invalid. The application will now refresh. Please log in again.'',
      SignOut] \<and>
   run_app signed_in
     (visibilitychange signed_in Visible
        (Resolves \<lparr>session_user = None, session_error = Some ''network down''\<rparr>) Rejects) =
     signed_in"
  by (simp add: visibilitychange_def handleVisibilityChange_def handleLogout_def
      signOut_events_def signed_in_def)

text \<open>
  Claim C3, amended. When the document becomes visible while an identity is held, the
  session is queried again. If the query resolves with an error, with no session, or with
  a session of another user, the user is alerted once and one sign-out is requested; when
  that sign-out resolves without error the identity is cleared (by the listener, on
  \<^verbatim>\<open>SIGNED_OUT\<close>) and then the local and the session store are cleared; when it resolves with
  an error both stores are cleared and the document is loaded anew at \<^verbatim>\<open>/\<close>, which clears
  the identity; when it rejects nothing more happens and the state is unchanged. If the
  query resolves with the session of the held identity, or rejects, nothing but the query
  happens and the state is unchanged.
\<close>

theorem focus_revalidation:
  "currentUser st = Some u \<Longrightarrow>
   visibilitychange st Visible getSession signOut =
     GetSession #
     (case getSession of
        Rejects \<Rightarrow> []
      | Resolves result \<Rightarrow>
          if session_error result \<noteq> None \<or> session_user result \<noteq> Some (user_id u)
          then [AppAlert ''Your session has expired or is invalid. The application will now refresh. Please log in again.'',
                SignOut] @
               (case signOut of
                  Rejects \<Rightarrow> []
                | Resolves None \<Rightarrow> [SetCurrentUser None, LocalStorageClear, SessionStorageClear]
                | Resolves (Some e) \<Rightarrow>
                    [LocalStorageClear, SessionStorageClear, SetLocationHref ''/''])
          else []) \<and>
   run_app st (visibilitychange st Visible getSession signOut) =
     (case getSession of
        Rejects \<Rightarrow> st
      | Resolves result \<Rightarrow>
          if session_error result \<noteq> None \<or> session_user result \<noteq> Some (user_id u)
          then (case signOut of
                  Rejects \<Rightarrow> st
                | Resolves None \<Rightarrow>
                    st\<lparr>currentUser := None, userRef := None, localStorage := [],
                       sessionStorage := []\<rparr>
                | Resolves (Some e) \<Rightarrow>
                    st\<lparr>currentUser := None, userRef := None, loading := True,
                       localStorage := [], sessionStorage := []\<rparr>)
          else st)"
  by (cases getSession; cases signOut)
    (auto simp: visibilitychange_def handleVisibilityChange_def handleLogout_def
      signOut_events_def authListener_def)

theorem focus_revalidation_witness:
  "currentUser signed_in = Some alice \<and>
   visibilitychange signed_in Visible
     (Resolves \<lparr>session_user = Some ''u2'', session_error = None\<rparr>) (Resolves None) =
     [GetSession,
      AppAlert ''Your session has expired or is invalid. The application will now refresh. Please log in again.'',
      SignOut, SetCurrentUser None, LocalStorageClear, SessionStorageClear] \<and>
   run_app signed_in
     (visibilitychange signed_in Visible
        (Resolves \<lparr>session_user = Some ''u2'', session_error = None\<rparr>) (Resolves None)) =
     \<lparr>currentUser = None, userRef = None, loading = False, localStorage = [],
      sessionStorage = []\<rparr> \<and>
   currentUser (run_app signed_in
     (visibilitychange signed_in Visible
        (Resolves \<lparr>session_user = None, session_error = None\<rparr>) (Resolves (Some ''offline'')))) = None \<and>
   run_app signed_in
     (visibilitychange signed_in Visible
        (Resolves \<lparr>session_user = Some ''u1'', session_error = None\<rparr>) (Resolves None)) =
     signed_in"
proof -
  have c: "currentUser signed_in = Some alice"
    by (simp add: signed_in_def)
  have i: "user_id alice = ''u1''"
    by (simp add: alice_def)
  note t = focus_revalidation [OF c]
  have b: "signed_in\<lparr>currentUser := None, userRef := None, localStorage := [],
       sessionStorage := []\<rparr> =
     \<lparr>currentUser = None, userRef = None, loading = False, localStorage = [],
      sessionStorage = []\<rparr>"
    by (simp add: signed_in_def)
  show ?thesis
    using t [of "Resolves \<lparr>session_user = Some ''u2'', session_error = None\<rparr>" "Resolves None"]
      t [of "Resolves \<lparr>session_user = None, session_error = None\<rparr>" "Resolves (Some ''offline'')"]
      t [of "Resolves \<lparr>session_user = Some ''u1'', session_error = None\<rparr>" "Resolves None"]
      b c i
    by simp
qed

section \<open>The loading guard\<close>

lemma elapsed_append [simp]: "elapsed (es @ fs) = elapsed es + elapsed fs"
  by (induction es rule: elapsed.induct) simp_all

lemma unloaded_stays: "unloaded d \<Longrightarrow> foldl doc_step d es = d"
proof (induction es)
  case Nil
  then show ?case by simp
next
  case (Cons e es)
  then show ?case by (cases e) simp_all
qed

lemma disarmed_stays:
  "timer d = None \<Longrightarrow> \<not> doc_loading d \<Longrightarrow> fired (foldl doc_step d es) = fired d"
proof (induction es arbitrary: d)
  case Nil
  then show ?case by simp
next
  case (Cons e es)
  show ?case
  proof (cases e)
    case (Elapse ms)
    with Cons.prems Cons.IH [of "doc_step d e"] show ?thesis
      by (cases "unloaded d") simp_all
  next
    case InitComplete
    with Cons.prems Cons.IH [of d] show ?thesis by simp
  qed
qed

lemma waiting:
  "\<not> unloaded d \<Longrightarrow> doc_loading d \<Longrightarrow> timer d = Some due \<Longrightarrow> InitComplete \<notin> set es \<Longrightarrow>
   now d + elapsed es < due \<Longrightarrow>
   foldl doc_step d es = d\<lparr>now := now d + elapsed es\<rparr>"
proof (induction es arbitrary: d)
  case Nil
  then show ?case by simp
next
  case (Cons e es)
  show ?case
  proof (cases e)
    case (Elapse ms)
    with Cons.prems have s: "doc_step d e = d\<lparr>now := now d + ms\<rparr>"
      by simp
    from Cons.prems Elapse have "foldl doc_step (d\<lparr>now := now d + ms\<rparr>) es =
      (d\<lparr>now := now d + ms\<rparr>)\<lparr>now := now (d\<lparr>now := now d + ms\<rparr>) + elapsed es\<rparr>"
      by (intro Cons.IH) simp_all
    with s Elapse show ?thesis
      by (simp add: add.assoc)
  next
    case InitComplete
    with Cons.prems show ?thesis by simp
  qed
qed

lemma overdue:
  "\<not> unloaded d \<Longrightarrow> timer d = Some due \<Longrightarrow> now d < due \<Longrightarrow> InitComplete \<notin> set es \<Longrightarrow>
   due \<le> now d + elapsed es \<Longrightarrow>
   fired (foldl doc_step d (es @ rest)) = fired d @ loadingTimeout_callback"
proof (induction es arbitrary: d)
  case Nil
  then show ?case by simp
next
  case (Cons e es)
  from Cons.prems obtain ms where e: "e = Elapse ms"
    by (cases e) simp_all
  show ?case
  proof (cases "due \<le> now d + ms")
    case True
    with Cons.prems e have "unloaded (doc_step d e)"
      and "fired (doc_step d e) = fired d @ loadingTimeout_callback"
      by (simp_all add: loadingTimeout_callback_def)
    then show ?thesis
      by (simp add: unloaded_stays)
  next
    case False
    with Cons.prems e have s: "doc_step d e = d\<lparr>now := now d + ms\<rparr>"
      by simp
    from Cons.prems e False
    have "fired (foldl doc_step (d\<lparr>now := now d + ms\<rparr>) (es @ rest)) =
          fired (d\<lparr>now := now d + ms\<rparr>) @ loadingTimeout_callback"
      by (intro Cons.IH) simp_all
    with s show ?thesis by simp
  qed
qed

lemma cancelled:
  assumes "InitComplete \<notin> set es" "elapsed es < 10000"
  shows "fired (foldl doc_step document_start (es @ InitComplete # rest)) = []"
proof -
  have "foldl doc_step document_start es = document_start\<lparr>now := now document_start + elapsed es\<rparr>"
    using assms by (intro waiting) (simp_all add: document_start_def loadingTimeout_def)
  then have "foldl doc_step document_start (es @ [InitComplete]) =
      document_start\<lparr>now := elapsed es, doc_loading := False, timer := None\<rparr>"
    by (simp add: document_start_def loadingTimeout_def)
  then have "fired (foldl doc_step document_start ((es @ [InitComplete]) @ rest)) =
      fired (document_start\<lparr>now := elapsed es, doc_loading := False, timer := None\<rparr>)"
    unfolding foldl_append by (simp add: disarmed_stays)
  then show ?thesis
    by (simp add: document_start_def)
qed

text \<open>
  Claim C9. In one life of the document, on the clock of its timers: if initialization
  has not completed during the first 10000 ms, the guard's callback runs exactly once
  (one alert, the local store cleared, the session store cleared, then the reload),
  whatever happens afterwards; if initialization completes before 10000 ms have passed,
  the timer is cleared and the callback never runs.
\<close>

theorem loading_guard:
  "InitComplete \<notin> set es \<Longrightarrow>
   (10000 \<le> elapsed es \<longrightarrow>
      fired (foldl doc_step document_start (es @ rest)) = loadingTimeout_callback) \<and>
   (elapsed es < 10000 \<longrightarrow>
      fired (foldl doc_step document_start (es @ InitComplete # rest)) = [])"
proof (intro conjI impI)
  assume n: "InitComplete \<notin> set es" and "10000 \<le> elapsed es"
  then have "fired (foldl doc_step document_start (es @ rest)) =
      fired document_start @ loadingTimeout_callback"
    by (intro overdue [where due = 10000]) (simp_all add: document_start_def loadingTimeout_def)
  then show "fired (foldl doc_step document_start (es @ rest)) = loadingTimeout_callback"
    by (simp add: document_start_def)
next
  assume "InitComplete \<notin> set es" and "elapsed es < 10000"
  then show "fired (foldl doc_step document_start (es @ InitComplete # rest)) = []"
    by (rule cancelled)
qed

theorem loading_guard_witness:
  "fired (foldl doc_step document_start
     [Elapse 4000, Elapse 7000, InitComplete, Elapse 20000]) =
     [AppAlert ''Application is taking a while to load. We'll perform a quick refresh to resolve any potential issues.'',
      LocalStorageClear, SessionStorageClear, LocationReload] \<and>
   fired (foldl doc_step document_start [Elapse 9999, InitComplete, Elapse 50000]) = []"
proof -
  have a: "InitComplete \<notin> set [Elapse 4000, Elapse 7000]" "InitComplete \<notin> set [Elapse 9999]"
    by simp_all
  show ?thesis
    using loading_guard [OF a(1), of "[InitComplete, Elapse 20000]"]
      loading_guard [OF a(2), of "[Elapse 50000]"]
    by (simp add: loadingTimeout_callback_def)
qed

end
